theory Spec2Isabelle
  imports Complex_Main "HOL-Library.Multiset"
begin

section \<open>Python primitives used by the guardrails\<close>

text \<open>
  Python \<open>str\<close> values are modelled as HOL strings (lists of 8-bit characters), so the
  model covers the texts whose code points fit one character. Python \<open>float\<close> values
  are modelled as real numbers: rounding is not part of the model. Python \<open>int\<close>
  offsets are \<open>int\<close>, and slices follow Python's rules for negative and
  out-of-range bounds.
\<close>

definition py_slice_to :: "'a list \<Rightarrow> int \<Rightarrow> 'a list" where
  \<comment> \<open>\<open>s[:i]\<close>\<close>
  "py_slice_to s i = (if i < 0 then take (nat (int (length s) + i)) s else take (nat i) s)"

definition py_slice_from :: "'a list \<Rightarrow> int \<Rightarrow> 'a list" where
  \<comment> \<open>\<open>s[j:]\<close>\<close>
  "py_slice_from s j = (if j < 0 then drop (nat (int (length s) + j)) s else drop (nat j) s)"

definition py_slice :: "'a list \<Rightarrow> int \<Rightarrow> int \<Rightarrow> 'a list" where
  \<comment> \<open>\<open>s[i:j]\<close>\<close>
  "py_slice s i j =
     (let n = int (length s);
          lo = (if i < 0 then max 0 (n + i) else min i n);
          hi = (if j < 0 then max 0 (n + j) else min j n)
      in take (nat (hi - lo)) (drop (nat lo) s))"

text \<open>
  \<open>str.upper\<close> on the 8-bit code points: the letters a to z and the accented letters
  from code point 224 to 254 (but not the division sign, 247) move 32 places down, and the
  sharp s (223) becomes the two letters SS. The upper-case forms of the micro sign (181) and
  of y with diaeresis (255) lie outside the 8-bit code points; the model leaves these two
  characters as they are, which does not change whether an ASCII word occurs in the result.
\<close>

definition upper_char :: "char \<Rightarrow> string" where
  "upper_char c =
     (let n = (of_char c :: integer) in
      if 97 \<le> n \<and> n \<le> 122 then [char_of (n - 32)]
      else if n = 223 then ''SS''
      else if 224 \<le> n \<and> n \<le> 254 \<and> n \<noteq> 247 then [char_of (n - 32)]
      else [c])"

definition py_upper :: "string \<Rightarrow> string" where
  \<comment> \<open>\<open>s.upper()\<close>\<close>
  "py_upper s = concat (map upper_char s)"

definition startswith :: "string \<Rightarrow> string \<Rightarrow> bool" where
  \<comment> \<open>\<open>s.startswith(p)\<close>\<close>
  "startswith p s = (take (length p) s = p)"

fun str_contains :: "string \<Rightarrow> string \<Rightarrow> bool" where
  \<comment> \<open>\<open>p in s\<close>\<close>
  "str_contains p [] = (p = [])"
| "str_contains p (c # cs) = (startswith p (c # cs) \<or> str_contains p cs)"

function str_replace :: "string \<Rightarrow> string \<Rightarrow> string \<Rightarrow> string" where
  \<comment> \<open>\<open>s.replace(old, new)\<close>: every non-overlapping occurrence, left to right\<close>
  "str_replace old new [] = (if old = [] then new else [])"
| "str_replace old new (c # cs) =
     (if old = [] then new @ concat (map (\<lambda>x. x # new) (c # cs))
      else if startswith old (c # cs)
        then new @ str_replace old new (drop (length old) (c # cs))
      else c # str_replace old new cs)"
  by pat_completeness auto
termination
  by (relation "measure (\<lambda>(old, new, s). length s)") auto

section \<open>Configuration\<close>

record thresholds =
  semantic_similarity :: real
  risk_score_threshold :: real
  presidio_confidence :: real

record pii_config =
  thresholds :: thresholds
  entities :: "string list"
  sensitive_topics :: "string list"
  high_risk_entities :: "string list"
  redaction_patterns :: "(string \<times> string) list"

definition PII_DETECTION_CONFIG :: pii_config where
  "PII_DETECTION_CONFIG = \<lparr>
     thresholds = \<lparr> semantic_similarity = 0.75, risk_score_threshold = 0.5,
                    presidio_confidence = 0.7 \<rparr>,
     entities = [''CREDIT_CARD'', ''EMAIL_ADDRESS'', ''PHONE_NUMBER'', ''US_SSN'',
       ''BANK_ACCOUNT'', ''IBAN_CODE'', ''IFSC_CODE'', ''PAN_NUMBER'',
       ''AADHAAR_NUMBER'', ''LOCATION'', ''URL''],
     sensitive_topics = [''bank account'', ''credit card'', ''debit card'', ''ifsc code'',
       ''cvv'', ''social security number'', ''ssn'', ''pan card'', ''aadhaar'', ''passport'',
       ''routing number'', ''account number'', ''pin'', ''password'', ''otp'',
       ''salary'', ''compensation'', ''ctc'', ''package'', ''banking details'',
       ''net banking'', ''upi id'', ''paytm'', ''google pay'', ''phonepe'',
       ''linkedin'', ''github'',
       ''cgpa'', ''marks'', ''gpa'', ''grade'', ''percentage''],
     high_risk_entities = [''CREDIT_CARD'', ''US_SSN'', ''BANK_ACCOUNT'', ''AADHAAR_NUMBER'',
       ''PAN_NUMBER'', ''IFSC_CODE'', ''EMAIL_ADDRESS'', ''PHONE_NUMBER'', ''URL''],
     redaction_patterns = [
       (''EMAIL_ADDRESS'', ''[EMAIL_REDACTED]''),
       (''PHONE_NUMBER'', ''[PHONE_REDACTED]''),
       (''US_SSN'', ''[SSN_REDACTED]''),
       (''CREDIT_CARD'', ''[CARD_REDACTED]''),
       (''BANK_ACCOUNT'', ''[ACCOUNT_REDACTED]''),
       (''IFSC_CODE'', ''[IFSC_REDACTED]''),
       (''PAN_NUMBER'', ''[PAN_REDACTED]''),
       (''AADHAAR_NUMBER'', ''[AADHAAR_REDACTED]''),
       (''URL'', ''[LINK_REDACTED]''),
       (''CGPA'', ''[CGPA_REDACTED]''),
       (''MARKS'', ''[MARKS_REDACTED]''),
       (''GPA'', ''[GPA_REDACTED]''),
       (''PERCENTAGE'', ''[PERCENTAGE_REDACTED]'')] \<rparr>"

record detection_mode =
  semantic_threshold :: real
  risk_threshold :: real
  block_on_pii :: bool

definition DETECTION_MODES :: "(string \<times> detection_mode) list" where
  "DETECTION_MODES = [
     (''strict'', \<lparr> semantic_threshold = 0.6, risk_threshold = 0.3, block_on_pii = False \<rparr>),
     (''moderate'', \<lparr> semantic_threshold = 0.75, risk_threshold = 0.5, block_on_pii = False \<rparr>),
     (''lenient'', \<lparr> semantic_threshold = 0.85, risk_threshold = 0.7, block_on_pii = False \<rparr>)]"

definition DEFAULT_DETECTION_MODE :: string where
  "DEFAULT_DETECTION_MODE = ''moderate''"

section \<open>Detections and the detector\<close>

text \<open>A result of the entity recogniser (\<open>RecognizerResult\<close>) and the dictionary that
  \<open>detect_pii_with_presidio\<close> builds from it.\<close>

record recognizer_result =
  r_entity_type :: string
  r_start :: int
  r_end :: int
  r_score :: real

record detection =
  entity_type :: string
  start :: int
  end_pos :: int
  score :: real
  matched_text :: string

record semantic_detection =
  detected :: bool
  similarity :: real
  matched_topic :: "string option"

record topic_embeddings =
  topics :: "string list"
  embeddings :: "real list list"

text \<open>
  The state of an \<open>AdvancedPIIDetector\<close>. The recogniser engine and the sentence
  encoder are external: \<open>analyzer\<close> is \<open>None\<close> when the engine could not be set up, and
  otherwise maps a text and the entity names to its results, or to \<open>None\<close> when the call
  raises; \<open>semantic_model\<close> maps a text to its embedding, or to \<open>None\<close> when it raises;
  \<open>cos_sim\<close> is \<open>util.cos_sim\<close> of the encoder library, which maps the embedding of a text
  and the topic embeddings to the row of their cosines as the library computes them, or to
  \<open>None\<close> when it raises.
\<close>

record detector =
  config :: pii_config
  analyzer :: "(string \<Rightarrow> string list \<Rightarrow> recognizer_result list option) option"
  semantic_model :: "string \<Rightarrow> real list option"
  cos_sim :: "real list \<Rightarrow> real list list \<Rightarrow> real list option"
  sensitive_embeddings :: topic_embeddings

definition load_sensitive_embeddings ::
  "pii_config \<Rightarrow> (string \<Rightarrow> real list option) \<Rightarrow> topic_embeddings option" where
  \<comment> \<open>\<open>_load_sensitive_embeddings\<close>: \<open>None\<close> when encoding a topic raises\<close>
  "load_sensitive_embeddings cfg enc =
     (if \<forall>t \<in> set (sensitive_topics cfg). enc t \<noteq> None
      then Some \<lparr> topics = sensitive_topics cfg,
                  embeddings = map (\<lambda>t. the (enc t)) (sensitive_topics cfg) \<rparr>
      else None)"

definition new_detector ::
  "pii_config \<Rightarrow> (string \<Rightarrow> string list \<Rightarrow> recognizer_result list option) option
     \<Rightarrow> (string \<Rightarrow> real list option)
     \<Rightarrow> (real list \<Rightarrow> real list list \<Rightarrow> real list option) \<Rightarrow> detector option" where
  \<comment> \<open>\<open>AdvancedPIIDetector.__init__\<close>, given the engine, the encoder and the library's
      cosine function\<close>
  "new_detector cfg eng enc cs =
     (case load_sensitive_embeddings cfg enc of
        None \<Rightarrow> None
      | Some se \<Rightarrow> Some \<lparr> config = cfg, analyzer = eng, semantic_model = enc,
                          cos_sim = cs, sensitive_embeddings = se \<rparr>)"

definition detect_pii_with_presidio :: "detector \<Rightarrow> string \<Rightarrow> detection list" where
  "detect_pii_with_presidio det text =
     (case analyzer det of
        None \<Rightarrow> []
      | Some analyze \<Rightarrow>
          (case analyze text (entities (config det)) of
             None \<Rightarrow> []
           | Some results \<Rightarrow>
               map (\<lambda>r. \<lparr> entity_type = r_entity_type r, start = r_start r,
                           end_pos = r_end r, score = r_score r,
                           matched_text = py_slice text (r_start r) (r_end r) \<rparr>) results))"

subsection \<open>Semantic detection\<close>

fun tensor_max :: "real list \<Rightarrow> real option" where
  \<comment> \<open>\<open>sims.max()\<close>: raises on an empty tensor\<close>
  "tensor_max [] = None"
| "tensor_max (x # xs) = Some (fold max xs x)"

definition argmax :: "real list \<Rightarrow> nat" where
  \<comment> \<open>\<open>sims.argmax()\<close>: the first index that holds the maximum\<close>
  "argmax xs = length (takeWhile (\<lambda>x. x \<noteq> fold max xs (hd xs)) xs)"

definition semantic_failed :: semantic_detection where
  \<comment> \<open>the result of the \<open>except\<close> branch\<close>
  "semantic_failed = \<lparr> detected = False, similarity = 0, matched_topic = None \<rparr>"

definition detect_semantic_pii :: "detector \<Rightarrow> string \<Rightarrow> semantic_detection" where
  "detect_semantic_pii det text =
     (case semantic_model det text of
        None \<Rightarrow> semantic_failed
      | Some text_embedding \<Rightarrow>
          (case cos_sim det text_embedding (embeddings (sensitive_embeddings det)) of
             None \<Rightarrow> semantic_failed
           | Some sims \<Rightarrow>
               (case tensor_max sims of
                  None \<Rightarrow> semantic_failed
                | Some max_sim \<Rightarrow>
                    if max_sim > semantic_similarity (thresholds (config det))
                    then (let idx = argmax sims in
                          if idx < length (sensitive_topics (config det))
                          then \<lparr> detected = True, similarity = max_sim,
                                 matched_topic = Some (sensitive_topics (config det) ! idx) \<rparr>
                          else semantic_failed)
                    else \<lparr> detected = False, similarity = max_sim,
                           matched_topic = None \<rparr>)))"

subsection \<open>Risk score\<close>

definition calculate_risk :: "detector \<Rightarrow> detection list \<Rightarrow> semantic_detection \<Rightarrow> real" where
  \<comment> \<open>\<open>_calculate_risk\<close>\<close>
  "calculate_risk det detections semantic =
     (let score0 = real (length detections) * 0.3;
          score1 = (if detected semantic then score0 + similarity semantic * 0.5 else score0);
          score2 = foldl (\<lambda>sc d. if entity_type d \<in> set (high_risk_entities (config det))
                                   then sc + 0.4 else sc) score1 detections
      in min score2 1)"

subsection \<open>Analysis\<close>

text \<open>
  The dictionary returned by \<open>analyze_text\<close>. Its keys \<open>presidio_detections\<close> and
  \<open>all_detections\<close> hold the same list object, so the record has one field for that
  object and \<open>all_detections\<close> reads it.
\<close>

record analysis =
  contains_pii :: bool
  presidio_detections :: "detection list"
  semantic_detection :: semantic_detection
  risk_score :: real

definition all_detections :: "analysis \<Rightarrow> detection list" where
  "all_detections a = presidio_detections a"

definition analyze_text :: "detector \<Rightarrow> string \<Rightarrow> analysis" where
  "analyze_text det text =
     (let presidio = detect_pii_with_presidio det text;
          semantic = detect_semantic_pii det text;
          detections = presidio
      in \<lparr> contains_pii = (detections \<noteq> [] \<or> detected semantic),
           presidio_detections = presidio,
           semantic_detection = semantic,
           risk_score = calculate_risk det detections semantic \<rparr>)"

subsection \<open>Redaction\<close>

definition replacement_token :: "detector \<Rightarrow> detection \<Rightarrow> string" where
  \<comment> \<open>the configured token of the entity type, or the generated fallback\<close>
  "replacement_token det d =
     (case map_of (redaction_patterns (config det)) (entity_type d) of
        Some repl \<Rightarrow> repl
      | None \<Rightarrow> ''['' @ entity_type d @ ''_REDACTED]'')"

definition replace_span :: "detector \<Rightarrow> string \<Rightarrow> detection \<Rightarrow> string" where
  \<comment> \<open>one pass of the loop: \<open>redacted[:start] + repl + redacted[end:]\<close>\<close>
  "replace_span det redacted d =
     py_slice_to redacted (start d) @ replacement_token det d @ py_slice_from redacted (end_pos d)"

definition sort_by_start_desc :: "detection list \<Rightarrow> detection list" where
  \<comment> \<open>\<open>list.sort(key=start, reverse=True)\<close>: descending, equal keys keep their order\<close>
  "sort_by_start_desc ds = sort_key (\<lambda>x. - start x) ds"

definition redact_topic :: "semantic_detection \<Rightarrow> string \<Rightarrow> string" where
  \<comment> \<open>the keyword pass for a semantic match\<close>
  "redact_topic semantic redacted =
     (if detected semantic then
        (let topic = py_upper (case matched_topic semantic of None \<Rightarrow> [] | Some t \<Rightarrow> t) in
         if str_contains ''CGPA'' topic then str_replace ''CGPA'' ''[CGPA_REDACTED]'' redacted
         else if str_contains ''MARKS'' topic then str_replace ''marks'' ''[MARKS_REDACTED]'' redacted
         else if str_contains ''GPA'' topic then str_replace ''GPA'' ''[GPA_REDACTED]'' redacted
         else if str_contains ''PERCENTAGE'' topic
           then str_replace ''%'' ''[PERCENTAGE_REDACTED]'' redacted
         else redacted)
      else redacted)"

text \<open>
  \<open>redact_pii\<close> sorts the list object of the analysis in place, so the model returns
  the analysis as the call leaves it together with the redacted text.
\<close>

definition redact_pii :: "detector \<Rightarrow> string \<Rightarrow> analysis \<Rightarrow> string \<times> analysis" where
  "redact_pii det text an =
     (let detections = sort_by_start_desc (presidio_detections an);
          an' = an\<lparr> presidio_detections := detections \<rparr>;
          redacted = foldl (replace_span det) text detections
      in (redact_topic (semantic_detection an') redacted, an'))"

section \<open>Guardrails API\<close>

definition apply_guardrails :: "detector \<Rightarrow> string \<Rightarrow> string \<Rightarrow> string" where
  \<comment> \<open>the second string is the \<open>mode\<close> argument\<close>
  "apply_guardrails det text mode =
     (let an = analyze_text det text in
      if contains_pii an then fst (redact_pii det text an) else text)"

record metadata =
  md_presidio_detections :: "detection list"
  md_semantic_detection :: semantic_detection
  pii_types :: "string list"

record content_analysis =
  safe :: bool
  metadata :: metadata
  content_risk_score :: real

definition analyze_content :: "detector \<Rightarrow> string \<Rightarrow> content_analysis" where
  "analyze_content det text =
     (let an = analyze_text det text in
      \<lparr> safe = True,
        metadata = \<lparr> md_presidio_detections = presidio_detections an,
                     md_semantic_detection = semantic_detection an,
                     pii_types = map entity_type (presidio_detections an) \<rparr>,
        content_risk_score = risk_score an \<rparr>)"

section \<open>The query endpoint\<close>

text \<open>
  What the endpoint takes from outside the repository: \<open>re_sub pat repl s\<close> stands for
  \<open>re.sub(pat, repl, s, flags=re.IGNORECASE)\<close>; \<open>store\<close> holds the pickled texts, and is
  \<open>None\<close> when the index file or the text file is missing; \<open>index_search\<close> encodes the
  sanitized query and searches the index for one neighbour, returning the index array, or
  \<open>None\<close> when a call raises; \<open>generate_content\<close> sends the prompt to the generative
  model and returns the text of the response (\<open>None\<close> for no text), or the message of the
  exception raised.
\<close>

record environment =
  re_sub :: "string \<Rightarrow> string \<Rightarrow> string \<Rightarrow> string"
  store :: "string list option"
  index_search :: "string \<Rightarrow> int list list option"
  generate_content :: "string \<Rightarrow> string + string option"

datatype unhandled = Unhandled

text \<open>
  The JSON bodies of the endpoint. \<open>Query_Blocked\<close> and \<open>Response_Hidden\<close> are the two
  bodies sent with status 403; they carry \<open>blocked_terms\<close> and \<open>risk_score\<close>, and their
  fixed \<open>answer\<close> texts are "Query blocked: contains high-risk sensitive information" and
  "Response hidden: sensitive content detected".
\<close>

datatype payload =
    Error string
  | Query_Blocked "string list" real
  | Response_Hidden "string list" real
  | Answer string

definition bs :: string where
  \<comment> \<open>the backslash of a regular expression\<close>
  "bs = [CHR 0x5C]"

definition score_patterns :: "string list" where
  "score_patterns = [
     bs @ ''bCGPA[:'' @ bs @ ''s]*'' @ bs @ ''d+('' @ bs @ ''.'' @ bs @ ''d+)?'' @ bs @ ''b'',
     bs @ ''bGPA[:'' @ bs @ ''s]*'' @ bs @ ''d+('' @ bs @ ''.'' @ bs @ ''d+)?'' @ bs @ ''b'',
     bs @ ''b'' @ bs @ ''d+('' @ bs @ ''.'' @ bs @ ''d+)?'' @ bs @ ''s*/'' @ bs @ ''s*10'' @ bs @ ''b'',
     bs @ ''b'' @ bs @ ''d+('' @ bs @ ''.'' @ bs @ ''d+)?'' @ bs @ ''s*/'' @ bs @ ''s*100'' @ bs @ ''b'',
     bs @ ''bmarks[:'' @ bs @ ''s]*'' @ bs @ ''d+%?'' @ bs @ ''b'',
     bs @ ''bgrade[:'' @ bs @ ''s]*[A-F][+-]?'' @ bs @ ''b'']"

definition block_academic_scores :: "environment \<Rightarrow> string \<Rightarrow> string" where
  "block_academic_scores env text =
     foldl (\<lambda>redacted pat. re_sub env pat ''[REDACTED_SCORE]'' redacted) text score_patterns"

definition py_whitespace :: "char list" where
  "py_whitespace = [CHR 0x09, CHR 0x0A, CHR 0x0B, CHR 0x0C, CHR 0x0D, CHR 0x1C, CHR 0x1D,
                    CHR 0x1E, CHR 0x1F, CHR 0x20, CHR 0x85, CHR 0xA0]"

definition py_strip :: "string \<Rightarrow> string" where
  \<comment> \<open>\<open>s.strip()\<close>\<close>
  "py_strip s =
     rev (dropWhile (\<lambda>c. c \<in> set py_whitespace)
            (rev (dropWhile (\<lambda>c. c \<in> set py_whitespace) s)))"

definition py_index :: "'a list \<Rightarrow> int \<Rightarrow> unhandled + 'a" where
  \<comment> \<open>\<open>xs[i]\<close>: a negative index counts from the end, a missing position raises\<close>
  "py_index xs i =
     (let k = (if i < 0 then i + int (length xs) else i) in
      if 0 \<le> k \<and> k < int (length xs) then Inr (xs ! nat k) else Inl Unhandled)"

definition search_resumes :: "environment \<Rightarrow> detector \<Rightarrow> string \<Rightarrow> unhandled + string option" where
  "search_resumes env det query =
     (case store env of
        None \<Rightarrow> Inr None
      | Some texts \<Rightarrow>
          (let safe_query = apply_guardrails det query DEFAULT_DETECTION_MODE in
           case index_search env safe_query of
             None \<Rightarrow> Inl Unhandled
           | Some indices \<Rightarrow>
               if length indices = 0 then Inr None
               else (case py_index (hd indices) 0 of
                       Inl e \<Rightarrow> Inl e
                     | Inr i \<Rightarrow>
                         if i = - 1 then Inr None
                         else (case py_index texts i of
                                 Inl e \<Rightarrow> Inl e
                               | Inr t \<Rightarrow> Inr (Some t)))))"

definition no_response_text :: string where
  \<comment> \<open>the text used for an empty response; the warning sign of the source literal lies
      outside the 8-bit characters and is left out\<close>
  "no_response_text = ''[ No response from model]''"

definition make_prompt :: "string \<Rightarrow> string \<Rightarrow> string" where
  "make_prompt redacted_text safe_query =
     ''You are a resume assistant. DO NOT reveal any sensitive personal information such as ''
     @ ''bank account numbers, passwords, credit card numbers, CVV codes, social security numbers, phone numbers, emails, or academic scores (CGPA, GPA, marks, grades).''
     @ [CHR 0x0A, CHR 0x0A]
     @ ''Here is the sanitized resume text:'' @ [CHR 0x0A] @ redacted_text @ [CHR 0x0A, CHR 0x0A]
     @ ''Question: '' @ safe_query @ [CHR 0x0A] @ ''Answer:''"

definition final_check :: "detector \<Rightarrow> string \<Rightarrow> payload \<times> nat" where
  \<comment> \<open>the last step of \<open>query_resume\<close>: the final guardrails check on the response text
      and the reply that follows from it\<close>
  "final_check det response_text =
     (let final_analysis = analyze_content det response_text in
      if \<not> safe final_analysis \<and> content_risk_score final_analysis > 0.8
      then (Response_Hidden (pii_types (metadata final_analysis))
              (content_risk_score final_analysis), 403)
      else (Answer response_text, 200))"

text \<open>
  \<open>query_resume\<close> takes the value of the key \<open>query\<close> of the JSON body, \<open>None\<close> when
  the body or the key is missing. \<open>Inl Unhandled\<close> stands for an exception that leaves the
  function; otherwise the result is the JSON body and the status code.
\<close>

definition query_resume ::
  "environment \<Rightarrow> detector \<Rightarrow> string option \<Rightarrow> unhandled + (payload \<times> nat)" where
  "query_resume env det q =
     (let query = py_strip (case q of None \<Rightarrow> [] | Some x \<Rightarrow> x) in
      if query = [] then Inr (Error ''Query is required'', 400)
      else
        (case search_resumes env det query of
           Inl e \<Rightarrow> Inl e
         | Inr found \<Rightarrow>
             (case found of
                None \<Rightarrow> Inr (Error ''No relevant resume data found for your query.'', 404)
              | Some matched \<Rightarrow>
                  if matched = []
                  then Inr (Error ''No relevant resume data found for your query.'', 404)
                  else
                    (let redacted_text =
                           block_academic_scores env
                             (apply_guardrails det matched DEFAULT_DETECTION_MODE);
                         an = analyze_content det redacted_text in
                     if \<not> safe an \<and> content_risk_score an > 0.8
                     then Inr (Query_Blocked (pii_types (metadata an)) (content_risk_score an), 403)
                     else
                       (case generate_content env
                               (make_prompt redacted_text
                                  (apply_guardrails det query DEFAULT_DETECTION_MODE)) of
                          Inl msg \<Rightarrow> Inr (Error (''Gemini API error: '' @ msg), 500)
                        | Inr t \<Rightarrow>
                            (let response_text =
                                   (case t of None \<Rightarrow> no_response_text
                                    | Some x \<Rightarrow> if x = [] then no_response_text else x);
                                 response_text' = block_academic_scores env response_text
                             in Inr (final_check det response_text')))))))"

section \<open>Replacement read on the original text\<close>



section \<open>Fixtures\<close>

text \<open>
  Stand-ins for the external recogniser, encoder and services, used to run the
  definitions on concrete inputs. \<open>fixture_engine\<close> reports two e-mail addresses in one
  text and a telephone number, with the score of a pattern match without context, in
  another. \<open>keyword_encoder\<close> puts a text that mentions CGPA beside the topic "cgpa", a text
  that mentions marks beside the topic "marks", and every other text away from all topics.
  \<open>constant_encoder\<close> gives every text the same vector, and \<open>opposed_encoder\<close> gives
  the topics one vector and every other text the opposite one. \<open>overlap_engine\<close> reports
  an e-mail address and, inside it, the host name as a link.

  \<open>exact_cos_sim\<close> stands in for the library's cosine function. It follows the library's
  steps without rounding: each vector is divided by the larger of its Euclidean norm and
  \<open>1e-12\<close>, the result holds the dot product of the text's vector with every row, and
  vectors of different dimensions make it raise. The vectors of the encoders above have one
  entry 1 or -1 and zeros elsewhere, for which these steps involve no rounding.
\<close>

definition dot :: "real list \<Rightarrow> real list \<Rightarrow> real" where
  "dot a b = sum_list (map (\<lambda>(x, y). x * y) (zip a b))"

definition l2_norm :: "real list \<Rightarrow> real" where
  "l2_norm v = sqrt (sum_list (map (\<lambda>x. x * x) v))"

definition normalize :: "real list \<Rightarrow> real list" where
  "normalize v = map (\<lambda>x. x / max (l2_norm v) (1 / 10 ^ 12)) v"

definition exact_cos_sim :: "real list \<Rightarrow> real list list \<Rightarrow> real list option" where
  "exact_cos_sim a rows =
     (if \<forall>row \<in> set rows. length row = length a
      then Some (map (\<lambda>row. dot (normalize a) (normalize row)) rows)
      else None)"

definition overlap_engine :: "string \<Rightarrow> string list \<Rightarrow> recognizer_result list option" where
  "overlap_engine text ents =
     Some (if text = ''bob@university-example.edu call me''
           then [\<lparr> r_entity_type = ''EMAIL_ADDRESS'', r_start = 0, r_end = 26, r_score = 1 \<rparr>,
                 \<lparr> r_entity_type = ''URL'', r_start = 4, r_end = 26, r_score = 0.5 \<rparr>]
           else [])"

definition fixture_engine :: "string \<Rightarrow> string list \<Rightarrow> recognizer_result list option" where
  "fixture_engine text ents =
     Some (if text = ''a@b.co c@d.co''
           then [\<lparr> r_entity_type = ''EMAIL_ADDRESS'', r_start = 0, r_end = 6, r_score = 1 \<rparr>,
                 \<lparr> r_entity_type = ''EMAIL_ADDRESS'', r_start = 7, r_end = 13, r_score = 1 \<rparr>]
           else if text = ''212-555-5555''
           then [\<lparr> r_entity_type = ''PHONE_NUMBER'', r_start = 0, r_end = 12, r_score = 0.4 \<rparr>]
           else [])"

definition keyword_encoder :: "string \<Rightarrow> real list option" where
  "keyword_encoder s =
     Some (if str_contains ''CGPA'' (py_upper s) then [1, 0, 0, 0]
           else if str_contains ''MARKS'' (py_upper s) then [0, 1, 0, 0]
           else if s \<in> set (sensitive_topics PII_DETECTION_CONFIG) then [0, 0, 1, 0]
           else [0, 0, 0, 1])"

definition constant_encoder :: "string \<Rightarrow> real list option" where
  "constant_encoder s = Some [1]"

definition opposed_encoder :: "string \<Rightarrow> real list option" where
  "opposed_encoder s =
     Some (if s \<in> set (sensitive_topics PII_DETECTION_CONFIG) then [1] else [- 1])"

definition fixture_detector ::
  "(string \<Rightarrow> string list \<Rightarrow> recognizer_result list option) option
     \<Rightarrow> (string \<Rightarrow> real list option) \<Rightarrow> detector" where
  "fixture_detector eng enc =
     \<lparr> config = PII_DETECTION_CONFIG, analyzer = eng, semantic_model = enc,
       cos_sim = exact_cos_sim,
       sensitive_embeddings =
         \<lparr> topics = sensitive_topics PII_DETECTION_CONFIG,
           embeddings = map (\<lambda>t. the (enc t)) (sensitive_topics PII_DETECTION_CONFIG) \<rparr> \<rparr>"

definition fixture_env :: environment where
  \<comment> \<open>none of the score patterns matches the texts of this environment, so \<open>re.sub\<close>
      returns them as they are\<close>
  "fixture_env =
     \<lparr> re_sub = (\<lambda>pat repl s. s),
       store = Some [''resume''],
       index_search = (\<lambda>q. Some [[0]]),
       generate_content = (\<lambda>prompt. Inr (Some ''a@b.co c@d.co'')) \<rparr>"

section \<open>The risk score\<close>

lemma foldl_high_risk:
  "foldl (\<lambda>sc d. if P d then sc + (c::real) else sc) s ds = s + c * real (length (filter P ds))"
  by (induction ds arbitrary: s) (simp_all add: algebra_simps)

text \<open>
  C3. The score of \<open>_calculate_risk\<close> is the minimum of 1 and the sum of 0.3 for each
  entity span, half the similarity when the semantic match is detected, and 0.4 for each
  span whose type is one of the configured high-risk entities.
\<close>

theorem calculate_risk_formula:
  "calculate_risk det detections semantic =
     min 1 (0.3 * real (length detections)
            + (if detected semantic then 0.5 * similarity semantic else 0)
            + 0.4 * real (length (filter (\<lambda>d. entity_type d \<in> set (high_risk_entities (config det)))
                                    detections)))"
  by (simp add: calculate_risk_def Let_def foldl_high_risk min.commute algebra_simps)

section \<open>The exact cosine lies between -1 and 1\<close>






lemma fold_max_bounds:
  "lo \<le> x0 \<Longrightarrow> x0 \<le> hi \<Longrightarrow> \<forall>x \<in> set xs. lo \<le> x \<and> x \<le> hi
     \<Longrightarrow> lo \<le> fold max xs x0 \<and> fold max xs x0 \<le> (hi::real)"
  by (induction xs arbitrary: x0) (simp_all add: max_def)

lemma tensor_max_bounds:
  "tensor_max xs = Some m \<Longrightarrow> \<forall>x \<in> set xs. lo \<le> x \<and> x \<le> hi \<Longrightarrow> lo \<le> m \<and> m \<le> (hi::real)"
  by (cases xs) (auto dest: fold_max_bounds [rotated 2])


section \<open>The fixtures evaluated\<close>


lemma fixture_detector_fields:
  "config (fixture_detector eng enc) = PII_DETECTION_CONFIG"
  "analyzer (fixture_detector eng enc) = eng"
  "semantic_model (fixture_detector eng enc) = enc"
  "cos_sim (fixture_detector eng enc) = exact_cos_sim"
  by (simp_all add: fixture_detector_def)

lemma fixture_detector_constructed:
  "\<forall>t. enc t \<noteq> None
     \<Longrightarrow> new_detector PII_DETECTION_CONFIG eng enc exact_cos_sim
           = Some (fixture_detector eng enc)"
  by (simp add: new_detector_def load_sensitive_embeddings_def fixture_detector_def)

lemma fixture_encoders_total:
  "keyword_encoder t \<noteq> None" "constant_encoder t \<noteq> None" "opposed_encoder t \<noteq> None"
  by (simp_all add: keyword_encoder_def constant_encoder_def opposed_encoder_def)

lemma sensitive_topics_config:
  "sensitive_topics PII_DETECTION_CONFIG =
     [''bank account'', ''credit card'', ''debit card'', ''ifsc code'',
      ''cvv'', ''social security number'', ''ssn'', ''pan card'', ''aadhaar'', ''passport'',
      ''routing number'', ''account number'', ''pin'', ''password'', ''otp'',
      ''salary'', ''compensation'', ''ctc'', ''package'', ''banking details'',
      ''net banking'', ''upi id'', ''paytm'', ''google pay'', ''phonepe'',
      ''linkedin'', ''github'', ''cgpa'', ''marks'', ''gpa'', ''grade'', ''percentage'']"
  by (simp add: PII_DETECTION_CONFIG_def)

lemma semantic_threshold_config: "semantic_similarity (thresholds PII_DETECTION_CONFIG) = 3 / 4"
  by (simp add: PII_DETECTION_CONFIG_def)

lemma keyword_embeddings:
  "embeddings (sensitive_embeddings (fixture_detector eng keyword_encoder)) =
     replicate 27 [0, 0, 1, 0] @ [[1, 0, 0, 0], [0, 1, 0, 0]] @ replicate 3 [0, 0, 1, 0]"
proof -
  have "map (\<lambda>t. the (keyword_encoder t)) (sensitive_topics PII_DETECTION_CONFIG) =
     replicate 27 [0, 0, 1, 0] @ [[1, 0, 0, 0], [0, 1, 0, 0]] @ replicate 3 [0, 0, 1, 0]"
    by code_simp
  then show ?thesis by (simp add: fixture_detector_def)
qed

lemma constant_embeddings:
  "embeddings (sensitive_embeddings (fixture_detector eng constant_encoder)) = replicate 32 [1]"
  by (simp add: fixture_detector_def constant_encoder_def sensitive_topics_config numeral_eq_Suc)


lemma normalize_unit:
  "normalize [1, 0, 0, 0] = [1, 0, 0, 0]" "normalize [0, 1, 0, 0] = [0, 1, 0, 0]"
  "normalize [0, 0, 1, 0] = [0, 0, 1, 0]" "normalize [0, 0, 0, 1] = [0, 0, 0, 1]"
  "normalize [1] = [1]" "normalize [- 1] = [- 1]"
  by (simp_all add: normalize_def l2_norm_def)

lemma keyword_other_text:
  assumes "\<not> str_contains ''CGPA'' (py_upper s)" "\<not> str_contains ''MARKS'' (py_upper s)"
    "s \<notin> set (sensitive_topics PII_DETECTION_CONFIG)"
  shows "detect_semantic_pii (fixture_detector eng keyword_encoder) s =
           \<lparr> detected = False, similarity = 0, matched_topic = None \<rparr>"
proof -
  have "keyword_encoder s = Some [0, 0, 0, 1]"
    using assms by (simp add: keyword_encoder_def)
  then show ?thesis
    by (simp add: detect_semantic_pii_def fixture_detector_fields keyword_embeddings
        exact_cos_sim_def normalize_unit dot_def numeral_eq_Suc semantic_threshold_config)
qed

lemma keyword_cgpa_text:
  assumes "str_contains ''CGPA'' (py_upper s)"
  shows "detect_semantic_pii (fixture_detector eng keyword_encoder) s =
           \<lparr> detected = True, similarity = 1, matched_topic = Some ''cgpa'' \<rparr>"
proof -
  have "keyword_encoder s = Some [1, 0, 0, 0]"
    using assms by (simp add: keyword_encoder_def)
  then show ?thesis
    by (simp add: detect_semantic_pii_def fixture_detector_fields keyword_embeddings
        exact_cos_sim_def normalize_unit dot_def numeral_eq_Suc semantic_threshold_config
        argmax_def sensitive_topics_config)
qed

lemma keyword_marks_text:
  assumes "\<not> str_contains ''CGPA'' (py_upper s)" "str_contains ''MARKS'' (py_upper s)"
  shows "detect_semantic_pii (fixture_detector eng keyword_encoder) s =
           \<lparr> detected = True, similarity = 1, matched_topic = Some ''marks'' \<rparr>"
proof -
  have "keyword_encoder s = Some [0, 1, 0, 0]"
    using assms by (simp add: keyword_encoder_def)
  then show ?thesis
    by (simp add: detect_semantic_pii_def fixture_detector_fields keyword_embeddings
        exact_cos_sim_def normalize_unit dot_def numeral_eq_Suc semantic_threshold_config
        argmax_def sensitive_topics_config)
qed

lemma constant_any_text:
  "detect_semantic_pii (fixture_detector eng constant_encoder) s =
           \<lparr> detected = True, similarity = 1, matched_topic = Some ''bank account'' \<rparr>"
  by (simp add: detect_semantic_pii_def fixture_detector_fields constant_embeddings
        exact_cos_sim_def normalize_unit dot_def numeral_eq_Suc semantic_threshold_config
        argmax_def sensitive_topics_config constant_encoder_def)


lemma fixture_emails_detected:
  "detect_pii_with_presidio (fixture_detector (Some fixture_engine) enc) ''a@b.co c@d.co'' =
     [\<lparr> entity_type = ''EMAIL_ADDRESS'', start = 0, end_pos = 6, score = 1,
        matched_text = ''a@b.co'' \<rparr>,
      \<lparr> entity_type = ''EMAIL_ADDRESS'', start = 7, end_pos = 13, score = 1,
        matched_text = ''c@d.co'' \<rparr>]"
  by (simp add: detect_pii_with_presidio_def fixture_detector_fields fixture_engine_def
      py_slice_def)

lemma fixture_phone_detected:
  "detect_pii_with_presidio (fixture_detector (Some fixture_engine) enc) ''212-555-5555'' =
     [\<lparr> entity_type = ''PHONE_NUMBER'', start = 0, end_pos = 12, score = 0.4,
        matched_text = ''212-555-5555'' \<rparr>]"
  by (simp add: detect_pii_with_presidio_def fixture_detector_fields fixture_engine_def
      py_slice_def)

lemma fixture_nothing_detected:
  "s \<noteq> ''a@b.co c@d.co'' \<Longrightarrow> s \<noteq> ''212-555-5555''
     \<Longrightarrow> detect_pii_with_presidio (fixture_detector (Some fixture_engine) enc) s = []"
  by (simp add: detect_pii_with_presidio_def fixture_detector_fields fixture_engine_def)

lemma no_engine_nothing_detected:
  "detect_pii_with_presidio (fixture_detector None enc) s = []"
  by (simp add: detect_pii_with_presidio_def fixture_detector_fields)

lemma keyword_plain_emails:
  "detect_semantic_pii (fixture_detector eng keyword_encoder) ''a@b.co c@d.co'' =
     \<lparr> detected = False, similarity = 0, matched_topic = None \<rparr>"
proof -
  have "\<not> str_contains ''CGPA'' (py_upper ''a@b.co c@d.co'')"
    "\<not> str_contains ''MARKS'' (py_upper ''a@b.co c@d.co'')"
    by code_simp+
  then show ?thesis by (simp add: keyword_other_text sensitive_topics_config)
qed

lemma keyword_plain_phone:
  "detect_semantic_pii (fixture_detector eng keyword_encoder) ''212-555-5555'' =
     \<lparr> detected = False, similarity = 0, matched_topic = None \<rparr>"
proof -
  have "\<not> str_contains ''CGPA'' (py_upper ''212-555-5555'')"
    "\<not> str_contains ''MARKS'' (py_upper ''212-555-5555'')"
    by code_simp+
  then show ?thesis by (simp add: keyword_other_text sensitive_topics_config)
qed

lemma high_risk_config:
  "high_risk_entities PII_DETECTION_CONFIG = [''CREDIT_CARD'', ''US_SSN'', ''BANK_ACCOUNT'',
     ''AADHAAR_NUMBER'', ''PAN_NUMBER'', ''IFSC_CODE'', ''EMAIL_ADDRESS'', ''PHONE_NUMBER'', ''URL'']"
  by (simp add: PII_DETECTION_CONFIG_def)

lemma token_config:
  "config det = PII_DETECTION_CONFIG \<Longrightarrow> entity_type d = ''EMAIL_ADDRESS''
     \<Longrightarrow> replacement_token det d = ''[EMAIL_REDACTED]''"
  "config det = PII_DETECTION_CONFIG \<Longrightarrow> entity_type d = ''PHONE_NUMBER''
     \<Longrightarrow> replacement_token det d = ''[PHONE_REDACTED]''"
  by (simp_all add: replacement_token_def PII_DETECTION_CONFIG_def)

lemma fixture_phone_analysis:
  "analyze_text (fixture_detector (Some fixture_engine) keyword_encoder) ''212-555-5555'' =
     \<lparr> contains_pii = True,
       presidio_detections = [\<lparr> entity_type = ''PHONE_NUMBER'', start = 0, end_pos = 12,
          score = 0.4, matched_text = ''212-555-5555'' \<rparr>],
       semantic_detection = \<lparr> detected = False, similarity = 0, matched_topic = None \<rparr>,
       risk_score = 0.7 \<rparr>"
  by (simp add: analyze_text_def fixture_phone_detected keyword_plain_phone calculate_risk_def
      fixture_detector_fields high_risk_config)

lemma fixture_emails_analysis:
  "analyze_text (fixture_detector (Some fixture_engine) keyword_encoder) ''a@b.co c@d.co'' =
     \<lparr> contains_pii = True,
       presidio_detections =
         [\<lparr> entity_type = ''EMAIL_ADDRESS'', start = 0, end_pos = 6, score = 1,
            matched_text = ''a@b.co'' \<rparr>,
          \<lparr> entity_type = ''EMAIL_ADDRESS'', start = 7, end_pos = 13, score = 1,
            matched_text = ''c@d.co'' \<rparr>],
       semantic_detection = \<lparr> detected = False, similarity = 0, matched_topic = None \<rparr>,
       risk_score = 1 \<rparr>"
  by (simp add: analyze_text_def fixture_emails_detected keyword_plain_emails calculate_risk_def
      fixture_detector_fields high_risk_config)


lemma fixture_emails_sanitized:
  "apply_guardrails (fixture_detector (Some fixture_engine) keyword_encoder) ''a@b.co c@d.co'' m
     = ''[EMAIL_REDACTED] [EMAIL_REDACTED]''"
  by (simp add: apply_guardrails_def fixture_emails_analysis redact_pii_def sort_by_start_desc_def
      replace_span_def token_config fixture_detector_fields py_slice_to_def py_slice_from_def
      redact_topic_def)

section \<open>The order of the spans\<close>

lemma sorted_desc_rev:
  "sorted (map (\<lambda>x. - f x) xs) \<Longrightarrow> sorted (rev (map f xs))" for f :: "'a \<Rightarrow> int"
  by (induction xs) (auto simp: sorted_append)

lemma sorted_sort_by_start_desc: "sorted (rev (map start (sort_by_start_desc ds)))"
  unfolding sort_by_start_desc_def by (rule sorted_desc_rev) (rule sorted_sort_key)

lemma mset_sort_by_start_desc: "mset (sort_by_start_desc ds) = mset ds"
  by (simp add: sort_by_start_desc_def)

lemma stable_sort_by_start_desc:
  "filter (\<lambda>d. start d = k) (sort_by_start_desc ds) = filter (\<lambda>d. start d = k) ds"
proof -
  have "filter (\<lambda>d. - start d = - k) (sort_key (\<lambda>x. - start x) ds)
          = filter (\<lambda>d. - start d = - k) ds"
    by (rule sort_key_stable)
  then show ?thesis by (simp add: sort_by_start_desc_def)
qed

lemma sort_by_start_desc_sorted_id:
  "sorted (rev (map start ds)) \<Longrightarrow> sort_by_start_desc ds = ds"
proof -
  assume "sorted (rev (map start ds))"
  then have "sorted (map (\<lambda>x. - start x) ds)"
    by (induction ds) (auto simp: sorted_append)
  then show ?thesis
    unfolding sort_by_start_desc_def by (rule sort_key_id_if_sorted)
qed

section \<open>The semantic matcher\<close>





lemma detected_above_threshold:
  "detected (detect_semantic_pii det text)
     \<Longrightarrow> semantic_similarity (thresholds (config det)) < similarity (detect_semantic_pii det text)"
  by (auto simp: detect_semantic_pii_def semantic_failed_def Let_def split: option.splits if_splits)




section \<open>Bounds and monotonicity of the risk score\<close>


lemma calculate_risk_le_1: "calculate_risk det ds sem \<le> 1"
  by (simp add: calculate_risk_def Let_def)

lemma calculate_risk_nonneg:
  "(detected sem \<longrightarrow> 0 \<le> similarity sem) \<Longrightarrow> 0 \<le> calculate_risk det ds sem"
  by (simp add: calculate_risk_def Let_def foldl_high_risk)

lemma calculate_risk_append:
  "calculate_risk det ds sem \<le> calculate_risk det (ds @ [d]) sem"
proof -
  define P where "P = (\<lambda>d::detection. entity_type d \<in> set (high_risk_entities (config det)))"
  define base where "base = (if detected sem then similarity sem * 0.5 else 0)"
  have a: "calculate_risk det xs sem
             = min (real (length xs) * 0.3 + base + 0.4 * real (length (filter P xs))) 1" for xs
    by (simp add: calculate_risk_def Let_def foldl_high_risk P_def base_def)
  have b: "real (length (ds @ [d])) * 0.3 + base + 0.4 * real (length (filter P (ds @ [d])))
             = (real (length ds) * 0.3 + base + 0.4 * real (length (filter P ds)))
               + (0.3 + (if P d then 0.4 else 0))"
    by (simp add: field_simps)
  have "min x 1 \<le> min (x + y) 1" if "0 \<le> y" for x y :: real
    using that by (simp add: min_def)
  then show ?thesis unfolding a b by simp
qed

text \<open>
  C4. Appending one more entity span to a report, high-risk or not, never lowers the
  score of \<open>_calculate_risk\<close>, and the score never exceeds 1. It is never negative
  when a detected match has a similarity that is not negative, which holds for every
  analysis \<open>analyze_text\<close> computes under a threshold that is not negative: the risk
  score of every analysed text lies between 0 and 1.
\<close>

theorem risk_score_monotone_and_clamped:
  "calculate_risk det ds sem \<le> calculate_risk det (ds @ [d]) sem
   \<and> calculate_risk det ds sem \<le> 1
   \<and> ((detected sem \<longrightarrow> 0 \<le> similarity sem) \<longrightarrow> 0 \<le> calculate_risk det ds sem)
   \<and> (0 \<le> semantic_similarity (thresholds (config det))
        \<longrightarrow> 0 \<le> risk_score (analyze_text det txt) \<and> risk_score (analyze_text det txt) \<le> 1)"
proof -
  have "0 \<le> risk_score (analyze_text det txt)"
    if "0 \<le> semantic_similarity (thresholds (config det))"
  proof -
    have "detected (detect_semantic_pii det txt) \<longrightarrow> 0 \<le> similarity (detect_semantic_pii det txt)"
      using detected_above_threshold [of det "txt"] that by auto
    then show ?thesis
      by (simp add: analyze_text_def Let_def calculate_risk_nonneg)
  qed
  moreover have "risk_score (analyze_text det txt) \<le> 1"
    by (simp add: analyze_text_def Let_def calculate_risk_le_1)
  ultimately show ?thesis
    using calculate_risk_append calculate_risk_le_1 calculate_risk_nonneg by blast
qed

theorem risk_score_monotone_and_clamped_witness:
  "0 \<le> semantic_similarity (thresholds (config (fixture_detector None constant_encoder)))
   \<and> 0 \<le> risk_score (analyze_text (fixture_detector None constant_encoder) ''hello'')
   \<and> risk_score (analyze_text (fixture_detector None constant_encoder) ''hello'') \<le> 1
   \<and> 0 \<le> calculate_risk (fixture_detector None constant_encoder) []
              \<lparr> detected = True, similarity = 1, matched_topic = Some ''otp'' \<rparr>"
  using risk_score_monotone_and_clamped [of "fixture_detector None constant_encoder" "[]"
      "\<lparr> detected = True, similarity = 1, matched_topic = Some ''otp'' \<rparr>" _ "''hello''"]
  by (simp add: fixture_detector_fields semantic_threshold_config)

section \<open>The mode argument\<close>

text \<open>
  C9. \<open>apply_guardrails\<close> never reads its \<open>mode\<close> argument, and nothing it calls reads
  \<open>DETECTION_MODES\<close>: the sanitized text is the same for every pair of modes.
\<close>

theorem apply_guardrails_mode_independent:
  "apply_guardrails det txt m1 = apply_guardrails det txt m2"
  by (simp add: apply_guardrails_def)

section \<open>The keyword pass\<close>

text \<open>
  C10. When the recogniser finds no entity span and the semantic match is detected with a
  topic whose upper-case form contains none of CGPA, MARKS, GPA and PERCENTAGE,
  \<open>apply_guardrails\<close> returns the text as it is.
\<close>

theorem non_education_topic_unchanged:
  assumes "detect_pii_with_presidio det txt = []"
    and "detected (detect_semantic_pii det txt)"
    and "matched_topic (detect_semantic_pii det txt) = Some topic"
    and "\<not> str_contains ''CGPA'' (py_upper topic)"
    and "\<not> str_contains ''MARKS'' (py_upper topic)"
    and "\<not> str_contains ''GPA'' (py_upper topic)"
    and "\<not> str_contains ''PERCENTAGE'' (py_upper topic)"
  shows "apply_guardrails det txt mode = txt"
  using assms
  by (simp add: apply_guardrails_def analyze_text_def redact_pii_def redact_topic_def
      sort_by_start_desc_def Let_def)

theorem non_education_topic_unchanged_witness:
  "apply_guardrails (fixture_detector None constant_encoder) ''my bank account'' ''moderate''
     = ''my bank account''"
proof -
  have t: "\<not> str_contains ''CGPA'' (py_upper ''bank account'')"
      "\<not> str_contains ''MARKS'' (py_upper ''bank account'')"
      "\<not> str_contains ''GPA'' (py_upper ''bank account'')"
      "\<not> str_contains ''PERCENTAGE'' (py_upper ''bank account'')"
    by code_simp+
  show ?thesis
    by (rule non_education_topic_unchanged [where topic = "''bank account''"])
       (simp_all add: constant_any_text detect_pii_with_presidio_def fixture_detector_fields t)
qed

section \<open>The span pass\<close>






section \<open>The report after redaction\<close>

text \<open>
  C8, as the code has it. \<open>redact_pii\<close> sorts the span list of the report it is given in
  place: after the call the list holds the same spans in descending order of start
  offset, spans with equal start keeping their order, and the other entries of the report
  are as before. The report is unchanged when its spans already were in that order.
\<close>

theorem redact_pii_sorts_report:
  "snd (redact_pii det txt an)
     = an\<lparr> presidio_detections := sort_by_start_desc (presidio_detections an) \<rparr>
   \<and> mset (presidio_detections (snd (redact_pii det txt an))) = mset (presidio_detections an)
   \<and> sorted (rev (map start (presidio_detections (snd (redact_pii det txt an)))))
   \<and> filter (\<lambda>d. start d = k) (presidio_detections (snd (redact_pii det txt an)))
       = filter (\<lambda>d. start d = k) (presidio_detections an)
   \<and> contains_pii (snd (redact_pii det txt an)) = contains_pii an
   \<and> semantic_detection (snd (redact_pii det txt an)) = semantic_detection an
   \<and> risk_score (snd (redact_pii det txt an)) = risk_score an
   \<and> (sorted (rev (map start (presidio_detections an))) \<longrightarrow> snd (redact_pii det txt an) = an)"
  by (simp add: redact_pii_def Let_def mset_sort_by_start_desc sorted_sort_by_start_desc
      stable_sort_by_start_desc sort_by_start_desc_sorted_id)

theorem redact_pii_sorts_report_witness:
  "snd (redact_pii (fixture_detector (Some fixture_engine) keyword_encoder) ''212-555-5555''
          (analyze_text (fixture_detector (Some fixture_engine) keyword_encoder) ''212-555-5555''))
     = analyze_text (fixture_detector (Some fixture_engine) keyword_encoder) ''212-555-5555''"
proof -
  have "sorted (rev (map start (presidio_detections
          (analyze_text (fixture_detector (Some fixture_engine) keyword_encoder) ''212-555-5555''))))"
    by (simp add: fixture_phone_analysis)
  then show ?thesis
    using redact_pii_sorts_report [of "fixture_detector (Some fixture_engine) keyword_encoder"
      "''212-555-5555''"
      "analyze_text (fixture_detector (Some fixture_engine) keyword_encoder) ''212-555-5555''" 0]
    by blast
qed

text \<open>
  C8 as stated fails: for a text with two e-mail addresses the recogniser reports the
  spans in ascending order, and the report after \<open>redact_pii\<close> differs from the report
  before it.
\<close>

theorem redact_pii_reorders_report_counterexample:
  "\<not> (snd (redact_pii (fixture_detector (Some fixture_engine) keyword_encoder) ''a@b.co c@d.co''
            (analyze_text (fixture_detector (Some fixture_engine) keyword_encoder) ''a@b.co c@d.co''))
       = analyze_text (fixture_detector (Some fixture_engine) keyword_encoder) ''a@b.co c@d.co'')"
  by (simp add: redact_pii_def fixture_emails_analysis sort_by_start_desc_def)

section \<open>Confidence scores\<close>




section \<open>Sanitizing twice\<close>

lemma str_replace_absent:
  "old \<noteq> [] \<Longrightarrow> \<not> str_contains old s \<Longrightarrow> str_replace old new s = s"
  by (induction s) simp_all

lemma redact_topic_no_keyword:
  assumes "\<not> str_contains ''CGPA'' s" "\<not> str_contains ''marks'' s"
    "\<not> str_contains ''GPA'' s" "\<not> str_contains ''%'' s"
  shows "redact_topic sem s = s"
  using assms by (simp add: redact_topic_def Let_def str_replace_absent)

lemma apply_guardrails_clean:
  assumes "detect_pii_with_presidio det s = []"
    and "\<not> str_contains ''CGPA'' s" "\<not> str_contains ''marks'' s"
    "\<not> str_contains ''GPA'' s" "\<not> str_contains ''%'' s"
  shows "apply_guardrails det s m = s"
  using assms
  by (simp add: apply_guardrails_def analyze_text_def redact_pii_def Let_def
      sort_by_start_desc_def redact_topic_no_keyword)

text \<open>
  C2, as the code has it. Sanitizing a sanitized text changes nothing when the recogniser
  finds no entity span in it and it holds none of the literals the keyword pass replaces
  (CGPA, marks, GPA and the percent sign).
\<close>

theorem sanitize_idempotent_when_clean:
  assumes "detect_pii_with_presidio det (apply_guardrails det x m) = []"
    and "\<not> str_contains ''CGPA'' (apply_guardrails det x m)"
    and "\<not> str_contains ''marks'' (apply_guardrails det x m)"
    and "\<not> str_contains ''GPA'' (apply_guardrails det x m)"
    and "\<not> str_contains ''%'' (apply_guardrails det x m)"
  shows "apply_guardrails det (apply_guardrails det x m) m = apply_guardrails det x m"
  using assms by (rule apply_guardrails_clean)

lemma fixture_marks_sanitized:
  "apply_guardrails (fixture_detector (Some fixture_engine) keyword_encoder) ''marks 90'' m
     = ''[MARKS_REDACTED] 90''"
proof -
  have k: "\<not> str_contains ''CGPA'' (py_upper ''marks 90'')"
    "str_contains ''MARKS'' (py_upper ''marks 90'')"
    "str_contains ''MARKS'' (py_upper ''marks'')" "\<not> str_contains ''CGPA'' (py_upper ''marks'')"
    by code_simp+
  show ?thesis
    by (simp add: apply_guardrails_def analyze_text_def redact_pii_def Let_def
        sort_by_start_desc_def fixture_nothing_detected keyword_marks_text k redact_topic_def startswith_def)
qed

lemma fixture_cgpa_sanitized:
  "apply_guardrails (fixture_detector (Some fixture_engine) keyword_encoder) ''CGPA 9'' m
     = ''[CGPA_REDACTED] 9''"
proof -
  have k: "str_contains ''CGPA'' (py_upper ''CGPA 9'')" "str_contains ''CGPA'' (py_upper ''cgpa'')"
    by code_simp+
  show ?thesis
    by (simp add: apply_guardrails_def analyze_text_def redact_pii_def Let_def
        sort_by_start_desc_def fixture_nothing_detected keyword_cgpa_text k redact_topic_def startswith_def)
qed

lemma fixture_cgpa_sanitized_twice:
  "apply_guardrails (fixture_detector (Some fixture_engine) keyword_encoder) ''[CGPA_REDACTED] 9'' m
     = ''[[CGPA_REDACTED]_REDACTED] 9''"
proof -
  have k: "str_contains ''CGPA'' (py_upper ''[CGPA_REDACTED] 9'')"
    "str_contains ''CGPA'' (py_upper ''cgpa'')"
    by code_simp+
  show ?thesis
    by (simp add: apply_guardrails_def analyze_text_def redact_pii_def Let_def
        sort_by_start_desc_def fixture_nothing_detected keyword_cgpa_text k redact_topic_def startswith_def)
qed

theorem sanitize_idempotent_when_clean_witness:
  "apply_guardrails (fixture_detector (Some fixture_engine) keyword_encoder)
     (apply_guardrails (fixture_detector (Some fixture_engine) keyword_encoder) ''marks 90''
        ''moderate'') ''moderate''
   = apply_guardrails (fixture_detector (Some fixture_engine) keyword_encoder) ''marks 90''
       ''moderate''"
proof -
  show ?thesis
    by (rule sanitize_idempotent_when_clean)
       (simp_all add: fixture_marks_sanitized fixture_nothing_detected startswith_def)
qed

text \<open>
  C2 as stated fails: the token "[CGPA_REDACTED]" holds the literal CGPA that the keyword
  pass replaces. With an encoder that matches a text mentioning CGPA to the topic "cgpa",
  the text "CGPA 9" is sanitized to "[CGPA_REDACTED] 9", and sanitizing that again gives
  "[[CGPA_REDACTED]_REDACTED] 9".
\<close>

theorem sanitize_not_idempotent_counterexample:
  "\<not> (apply_guardrails (fixture_detector (Some fixture_engine) keyword_encoder)
         (apply_guardrails (fixture_detector (Some fixture_engine) keyword_encoder) ''CGPA 9''
            ''moderate'') ''moderate''
       = apply_guardrails (fixture_detector (Some fixture_engine) keyword_encoder) ''CGPA 9''
           ''moderate'')"
  by (simp add: fixture_cgpa_sanitized fixture_cgpa_sanitized_twice)

section \<open>The hard block of the query endpoint\<close>

lemma analyze_content_safe: "safe (analyze_content det s)"
  by (simp add: analyze_content_def Let_def)

lemma final_check_answer: "final_check det r = (Answer r, 200)"
  by (simp add: final_check_def Let_def analyze_content_safe)

lemma query_resume_status: "query_resume env det q = Inr (p, code) \<Longrightarrow> code \<in> {200, 400, 404, 500}"
  by (auto simp: query_resume_def Let_def final_check_answer analyze_content_safe
      split: if_splits sum.splits option.splits)

text \<open>
  C1, as the code has it. The endpoint sends a 403 body only when the analysis is not
  safe and its risk score is above 0.8, and \<open>analyze_content\<close> always reports safe: the
  final check returns every response text as the answer with status 200, whatever its
  risk score, and no query is answered with status 403.
\<close>

theorem query_resume_never_blocks:
  "safe (analyze_content det s)
   \<and> final_check det r = (Answer r, 200)
   \<and> (\<forall>p. query_resume env det q \<noteq> Inr (p, 403))"
  using query_resume_status [of env det q _ 403]
  by (auto simp: analyze_content_safe final_check_answer)

lemma fixture_plain_text:
  assumes "s \<noteq> ''a@b.co c@d.co''" "s \<noteq> ''212-555-5555''"
    "\<not> str_contains ''CGPA'' (py_upper s)" "\<not> str_contains ''MARKS'' (py_upper s)"
    "s \<notin> set (sensitive_topics PII_DETECTION_CONFIG)"
  shows "apply_guardrails (fixture_detector (Some fixture_engine) keyword_encoder) s m = s"
  using assms
  by (simp add: apply_guardrails_def analyze_text_def Let_def fixture_nothing_detected
      keyword_other_text)

lemma fixture_block_academic_scores: "block_academic_scores fixture_env s = s"
  by (simp add: block_academic_scores_def fixture_env_def score_patterns_def)

lemma fixture_query_sanitized:
  "apply_guardrails (fixture_detector (Some fixture_engine) keyword_encoder) ''who'' m = ''who''"
proof -
  have "\<not> str_contains ''CGPA'' (py_upper ''who'')" "\<not> str_contains ''MARKS'' (py_upper ''who'')"
    by code_simp+
  then show ?thesis by (simp add: fixture_plain_text sensitive_topics_config)
qed

lemma fixture_resume_sanitized:
  "apply_guardrails (fixture_detector (Some fixture_engine) keyword_encoder) ''resume'' m = ''resume''"
proof -
  have "\<not> str_contains ''CGPA'' (py_upper ''resume'')" "\<not> str_contains ''MARKS'' (py_upper ''resume'')"
    by code_simp+
  then show ?thesis by (simp add: fixture_plain_text sensitive_topics_config)
qed

lemma fixture_search:
  "search_resumes fixture_env (fixture_detector (Some fixture_engine) keyword_encoder) ''who''
     = Inr (Some ''resume'')"
  by (simp add: search_resumes_def fixture_env_def fixture_query_sanitized py_index_def)

lemma fixture_query_answer:
  "query_resume fixture_env (fixture_detector (Some fixture_engine) keyword_encoder) (Some ''who'')
     = Inr (Answer ''a@b.co c@d.co'', 200)"
proof -
  have strip: "py_strip ''who'' = ''who''"
    by (simp add: py_strip_def py_whitespace_def)
  have gen: "generate_content fixture_env p = Inr (Some ''a@b.co c@d.co'')" for p
    by (simp add: fixture_env_def)
  show ?thesis
    by (simp add: query_resume_def Let_def strip fixture_search fixture_resume_sanitized
        fixture_block_academic_scores analyze_content_safe gen final_check_answer)
qed

text \<open>
  C1 as stated fails: a model response holding two e-mail addresses has risk score 1, and
  the endpoint returns it as the answer, character for character.
\<close>

theorem high_risk_response_returned_counterexample:
  "content_risk_score
     (analyze_content (fixture_detector (Some fixture_engine) keyword_encoder) ''a@b.co c@d.co'')
     > 0.8
   \<and> generate_content fixture_env
       (make_prompt ''resume'' ''who'') = Inr (Some ''a@b.co c@d.co'')
   \<and> query_resume fixture_env (fixture_detector (Some fixture_engine) keyword_encoder)
       (Some ''who'') = Inr (Answer ''a@b.co c@d.co'', 200)"
proof -
  have "content_risk_score
     (analyze_content (fixture_detector (Some fixture_engine) keyword_encoder) ''a@b.co c@d.co'')
     > 0.8"
    by (simp add: analyze_content_def fixture_emails_analysis)
  moreover have "generate_content fixture_env (make_prompt ''resume'' ''who'')
      = Inr (Some ''a@b.co c@d.co'')"
    by (simp add: fixture_env_def)
  ultimately show ?thesis
    by (simp only: fixture_query_answer simp_thms)
qed

end
